theory Spec2Isabelle
  imports Main "HOL-Library.Word" "HOL-Library.AList" "HOL-Library.Sublist"
begin

section \<open>Strings, objects and ranges\<close>

text \<open>
  A JavaScript string is a sequence of 16-bit code units; offsets into a document
  (\<^verbatim>\<open>match.index\<close>, \<^verbatim>\<open>match[0].length\<close>) count code units. ASCII literals of
  the source are embedded with \<open>lit\<close>.
\<close>

type_synonym jsstring = "16 word list"

definition lit :: "string \<Rightarrow> jsstring" where
  "lit s = map (\<lambda>c. of_nat (of_char c)) s"

text \<open>
  An object used as a dictionary (\<^verbatim>\<open>{ [key: string]: T }\<close>) has its own properties,
  an association list in creation order, and a prototype. An assignment \<^verbatim>\<open>o[k] = v\<close>
  of a name other than \<^verbatim>\<open>__proto__\<close> is \<open>AList.update k v o\<close> (an existing property keeps
  its place, a new one goes last).
\<close>

type_synonym 'v jsobject = "(jsstring \<times> 'v) list"

text \<open>
  The values a property read can give here: \<^verbatim>\<open>undefined\<close>, \<^verbatim>\<open>null\<close>, a string, an
  object created by \<^verbatim>\<open>{}\<close> or \<^verbatim>\<open>JSON.parse\<close> (string values, prototype
  \<^verbatim>\<open>Object.prototype\<close>), \<^verbatim>\<open>Object.prototype\<close> itself, and a built-in function, known by
  its name.
\<close>

datatype jsval =
    Undefined
  | Null
  | Str jsstring
  | Obj "jsstring jsobject"
  | ObjectPrototype
  | Builtin jsstring

text \<open>
  The properties of \<^verbatim>\<open>Object.prototype\<close>: eleven functions (each property with the
  name of its function) and the accessor \<^verbatim>\<open>__proto__\<close>. None of them is enumerable.
  Reading \<^verbatim>\<open>__proto__\<close> gives the prototype of the object that is read; assigning a
  string to it does nothing, assigning an object replaces the prototype.
\<close>

definition protoName :: jsstring where
  "protoName = lit ''__proto__''"

definition objectPrototypeFunctions :: "(jsstring \<times> jsstring) list" where
  "objectPrototypeFunctions =
     [(lit ''constructor'', lit ''Object''),
      (lit ''__defineGetter__'', lit ''__defineGetter__''),
      (lit ''__defineSetter__'', lit ''__defineSetter__''),
      (lit ''hasOwnProperty'', lit ''hasOwnProperty''),
      (lit ''__lookupGetter__'', lit ''__lookupGetter__''),
      (lit ''__lookupSetter__'', lit ''__lookupSetter__''),
      (lit ''isPrototypeOf'', lit ''isPrototypeOf''),
      (lit ''propertyIsEnumerable'', lit ''propertyIsEnumerable''),
      (lit ''toString'', lit ''toString''),
      (lit ''valueOf'', lit ''valueOf''),
      (lit ''toLocaleString'', lit ''toLocaleString'')]"

definition ordinaryName :: "jsstring \<Rightarrow> bool" where
  "ordinaryName k \<longleftrightarrow> map_of objectPrototypeFunctions k = None \<and> k \<noteq> protoName"

text \<open>
  \<open>fromObjectPrototype p k\<close> reads \<open>k\<close> in \<^verbatim>\<open>Object.prototype\<close> for an object whose
  prototype is \<open>p\<close>; \<open>getObj\<close> reads a property of an object with string values,
  \<open>getObjectPrototype\<close> one of \<^verbatim>\<open>Object.prototype\<close>, whose own prototype is \<^verbatim>\<open>null\<close>.
\<close>

definition fromObjectPrototype :: "jsval \<Rightarrow> jsstring \<Rightarrow> jsval" where
  "fromObjectPrototype p k =
     (case map_of objectPrototypeFunctions k of
        Some f \<Rightarrow> Builtin f
      | None \<Rightarrow> if k = protoName then p else Undefined)"

definition getObj :: "jsstring jsobject \<Rightarrow> jsstring \<Rightarrow> jsval" where
  "getObj obj k =
     (case map_of obj k of Some v \<Rightarrow> Str v | None \<Rightarrow> fromObjectPrototype ObjectPrototype k)"

definition getObjectPrototype :: "jsstring \<Rightarrow> jsval" where
  "getObjectPrototype k = fromObjectPrototype Null k"

text \<open>
  The translation index \<^verbatim>\<open>state.translations\<close>: its own properties are the locales.
  Its prototype is \<^verbatim>\<open>Object.prototype\<close> (\<open>None\<close>) until \<^verbatim>\<open>translations['__proto__'] = {}\<close>
  replaces it by a new object (\<open>Some\<close>, with the properties that object has got since).
\<close>

record TranslationIndex =
  own :: "(jsstring jsobject) jsobject"
  proto :: "jsstring jsobject option"

definition emptyIndex :: TranslationIndex where
  "emptyIndex = \<lparr>own = [], proto = None\<rparr>"

definition getIndex :: "TranslationIndex \<Rightarrow> jsstring \<Rightarrow> jsval" where
  "getIndex translations k =
     (case map_of (own translations) k of
        Some t \<Rightarrow> Obj t
      | None \<Rightarrow>
          (case proto translations of
             None \<Rightarrow> fromObjectPrototype ObjectPrototype k
           | Some p \<Rightarrow>
               (case map_of p k of Some v \<Rightarrow> Str v | None \<Rightarrow> fromObjectPrototype (Obj p) k)))"

text \<open>
  The members of a primitive string and of a built-in function come from
  \<^verbatim>\<open>String.prototype\<close>, \<^verbatim>\<open>Function.prototype\<close> and the function's own properties, which
  the source does not fix. They are a parameter: for such a receiver \<open>r\<close>,
  \<open>host r k\<close> is \<open>None\<close> when \<^verbatim>\<open>r[k]\<close> is falsy and otherwise the text \<^verbatim>\<open>r[k]\<close> converts to.
\<close>

type_synonym host = "jsval \<Rightarrow> jsstring \<Rightarrow> jsstring option"

text \<open>
  \<^verbatim>\<open>for (k in o)\<close> visits the own properties whose names are array indices
  (canonical decimal numerals below \<open>2^32 - 1\<close>) in ascending numeric order first, and
  the other properties in creation order after them; then, in the same way, the
  enumerable properties of the prototype that no own property hides.
\<close>

definition isDigit :: "16 word \<Rightarrow> bool" where
  "isDigit c \<longleftrightarrow> 0x30 \<le> c \<and> c \<le> 0x39"

definition indexValue :: "jsstring \<Rightarrow> int" where
  "indexValue s = foldl (\<lambda>a c. 10 * a + (uint c - 48)) 0 s"

definition isArrayIndex :: "jsstring \<Rightarrow> bool" where
  "isArrayIndex s \<longleftrightarrow>
     s \<noteq> [] \<and> list_all isDigit s \<and> (s = [0x30] \<or> hd s \<noteq> 0x30) \<and> indexValue s < 4294967295"

definition forInKeys :: "'v jsobject \<Rightarrow> jsstring list" where
  "forInKeys obj =
     sort_key indexValue (filter isArrayIndex (map fst obj))
     @ filter (\<lambda>k. \<not> isArrayIndex k) (map fst obj)"

definition forIn :: "TranslationIndex \<Rightarrow> jsstring list" where
  "forIn translations =
     forInKeys (own translations)
     @ (case proto translations of
          None \<Rightarrow> []
        | Some p \<Rightarrow> filter (\<lambda>k. k \<notin> fst ` set (own translations)) (forInKeys p))"

text \<open>
  A property key that is not a string is converted to one: the value \<^verbatim>\<open>undefined\<close>
  (here \<open>None\<close>) reads the property named \<^verbatim>\<open>undefined\<close>.
\<close>

definition toPropertyKey :: "jsstring option \<Rightarrow> jsstring" where
  "toPropertyKey v = (case v of None \<Rightarrow> lit ''undefined'' | Some s \<Rightarrow> s)"

text \<open>
  Positions of one document are represented by their offsets (\<^verbatim>\<open>positionAt\<close> is
  monotone, and the offsets the scanner passes to it lie inside a line). A
  \<^verbatim>\<open>vscode.Range\<close> orders its two ends; \<^verbatim>\<open>intersection\<close> is the host's: the larger
  start and the smaller end, undefined when that start lies after that end, so ranges
  that merely touch do intersect.
\<close>

record Range =
  rstart :: nat
  rend :: nat

definition newRange :: "nat \<Rightarrow> nat \<Rightarrow> Range" where
  "newRange a b = (if a \<le> b then \<lparr>rstart = a, rend = b\<rparr> else \<lparr>rstart = b, rend = a\<rparr>)"

definition intersection :: "Range \<Rightarrow> Range \<Rightarrow> Range option" where
  "intersection this other =
     (let s = max (rstart other) (rstart this); e = min (rend other) (rend this)
      in if e < s then None else Some \<lparr>rstart = s, rend = e\<rparr>)"

section \<open>Reference scanner: the pattern \<^verbatim>\<open>/ctx\.Tr\("(.+?)"\)/g\<close>\<close>

definition isLineTerminator :: "16 word \<Rightarrow> bool" where
  "isLineTerminator c \<longleftrightarrow> c = 0x0A \<or> c = 0x0D \<or> c = 0x2028 \<or> c = 0x2029"

definition callOpen :: jsstring where
  "callOpen = lit ''ctx.Tr(\"''"

definition callClose :: jsstring where
  "callClose = lit ''\")''"

text \<open>
  The lazy group \<^verbatim>\<open>(.+?)\<close> followed by \<^verbatim>\<open>"\)\<close>: at least one character, none a line
  terminator, extended one character at a time until the closing \<^verbatim>\<open>")\<close> follows.
\<close>

fun lazyGroup :: "jsstring \<Rightarrow> jsstring option" where
  "lazyGroup [] = None"
| "lazyGroup (c # rest) =
     (if isLineTerminator c then None
      else if prefix callClose rest then Some [c]
      else map_option ((#) c) (lazyGroup rest))"

definition matchAt :: "jsstring \<Rightarrow> jsstring option" where
  "matchAt s = (if prefix callOpen s then lazyGroup (drop 8 s) else None)"

record RegExpExecArray =
  index :: nat
  match0 :: jsstring
  match1 :: jsstring

text \<open>
  The \<^verbatim>\<open>while ((match = regex.exec(text)) !== null)\<close> loop: with the \<^verbatim>\<open>g\<close> flag each
  call searches from \<^verbatim>\<open>lastIndex\<close>, the end of the previous match. \<open>execAll i s\<close> lists
  the matches found in the rest \<open>s\<close> of the text that starts at offset \<open>i\<close>.
\<close>

function execAll :: "nat \<Rightarrow> jsstring \<Rightarrow> RegExpExecArray list" where
  "execAll lastIndex [] = []"
| "execAll lastIndex (c # cs) =
     (case matchAt (c # cs) of
        None \<Rightarrow> execAll (lastIndex + 1) cs
      | Some key \<Rightarrow>
          \<lparr>index = lastIndex, match0 = callOpen @ key @ callClose, match1 = key\<rparr>
          # execAll (lastIndex + (length key + 10)) (drop (length key + 10) (c # cs)))"
  by pat_completeness auto
termination
  by (relation "measure (\<lambda>(i, s). length s)") auto

section \<open>Annotation planner: the body of \<^verbatim>\<open>updateDecorationsForWorkspace\<close>\<close>

text \<open>
  \<^verbatim>\<open>contentText\<close> is \<^verbatim>\<open>renderOptions.after.contentText\<close>; the colour and border of
  the label are constants and are left out. \<^verbatim>\<open>hoverMessage\<close> is the markdown text.
\<close>

record DecorationOptions =
  range :: Range
  contentText :: "jsstring option"
  hoverMessage :: "jsstring option"

text \<open>
  \<^verbatim>\<open>v || key\<close> inside a template literal: \<^verbatim>\<open>undefined\<close>, \<^verbatim>\<open>null\<close> and the empty
  string are falsy; an object converts to \<^verbatim>\<open>[object Object]\<close> and a built-in function
  to its source text, which V8 gives as \<^verbatim>\<open>function f() { [native code] }\<close>.
\<close>

definition orKey :: "jsval \<Rightarrow> jsstring \<Rightarrow> jsstring" where
  "orKey v key =
     (case v of
        Undefined \<Rightarrow> key
      | Null \<Rightarrow> key
      | Str s \<Rightarrow> if s = [] then key else s
      | Obj obj \<Rightarrow> lit ''[object Object]''
      | ObjectPrototype \<Rightarrow> lit ''[object Object]''
      | Builtin f \<Rightarrow> lit ''function '' @ f @ lit ''() { [native code] }'')"

text \<open>
  \<^verbatim>\<open>state.translations[language]?.[key] || key\<close>: \<^verbatim>\<open>?.\<close> stops at \<^verbatim>\<open>undefined\<close> and
  \<^verbatim>\<open>null\<close>; every other receiver is asked for the key.
\<close>

definition translatedText :: "host \<Rightarrow> TranslationIndex \<Rightarrow> jsstring \<Rightarrow> jsstring \<Rightarrow> jsstring" where
  "translatedText host translations language key =
     (case getIndex translations language of
        Undefined \<Rightarrow> key
      | Null \<Rightarrow> key
      | Obj t \<Rightarrow> orKey (getObj t key) key
      | ObjectPrototype \<Rightarrow> orKey (getObjectPrototype key) key
      | Str s \<Rightarrow> (case host (Str s) key of None \<Rightarrow> key | Some t \<Rightarrow> t)
      | Builtin f \<Rightarrow> (case host (Builtin f) key of None \<Rightarrow> key | Some t \<Rightarrow> t))"

definition hoverLines :: "host \<Rightarrow> TranslationIndex \<Rightarrow> jsstring \<Rightarrow> jsstring list" where
  "hoverLines host translations key =
     map (\<lambda>displayLanguage.
            displayLanguage @ lit '': '' @ translatedText host translations displayLanguage key)
       (forIn translations)"

fun join :: "jsstring \<Rightarrow> jsstring list \<Rightarrow> jsstring" where
  "join sep [] = []"
| "join sep [x] = x"
| "join sep (x # y # ys) = x @ sep @ join sep (y # ys)"

definition markdown :: "jsstring list \<Rightarrow> jsstring" where
  "markdown lines =
     lit ''#### iris i18n \<newline><div style=\"line-height:20px;\">''
     @ join (lit ''</div><div style=\"line-height:20px;\">'') lines
     @ lit ''</div>''"

definition matchRange :: "RegExpExecArray \<Rightarrow> Range" where
  "matchRange match = newRange (index match + 8) (index match + length (match0 match) - 2)"

definition inplaceAnnotation ::
  "host \<Rightarrow> TranslationIndex \<Rightarrow> jsstring option \<Rightarrow> RegExpExecArray \<Rightarrow> DecorationOptions" where
  "inplaceAnnotation host translations displayLanguage match =
     \<lparr>range = matchRange match,
      contentText =
        Some (translatedText host translations (toPropertyKey displayLanguage) (match1 match)),
      hoverMessage = None\<rparr>"

definition decoration :: "host \<Rightarrow> TranslationIndex \<Rightarrow> RegExpExecArray \<Rightarrow> DecorationOptions" where
  "decoration host translations match =
     \<lparr>range = matchRange match,
      contentText = None,
      hoverMessage = Some (markdown (hoverLines host translations (match1 match)))\<rparr>"

text \<open>
  One iteration: the pair is (\<^verbatim>\<open>decorationsArray\<close>, \<^verbatim>\<open>inplaceAnnotations\<close>). A match whose
  range the selection does not intersect gets the inline label, the others the hover.
\<close>

definition loopBody ::
  "host \<Rightarrow> TranslationIndex \<Rightarrow> jsstring option \<Rightarrow> Range \<Rightarrow> RegExpExecArray
     \<Rightarrow> DecorationOptions list \<times> DecorationOptions list
     \<Rightarrow> DecorationOptions list \<times> DecorationOptions list" where
  "loopBody host translations displayLanguage selection match arrays =
     (case intersection selection (matchRange match) of
        None \<Rightarrow>
          (fst arrays, snd arrays @ [inplaceAnnotation host translations displayLanguage match])
      | Some _ \<Rightarrow> (fst arrays @ [decoration host translations match], snd arrays))"

definition computeDecorations ::
  "host \<Rightarrow> TranslationIndex \<Rightarrow> jsstring option \<Rightarrow> Range \<Rightarrow> jsstring
     \<Rightarrow> DecorationOptions list \<times> DecorationOptions list" where
  "computeDecorations host translations displayLanguage selection text =
     foldl (\<lambda>arrays match. loopBody host translations displayLanguage selection match arrays)
       ([], []) (execAll 0 text)"


section \<open>Locale index builder: the body of \<^verbatim>\<open>updateTranslationsForWorkspace\<close>\<close>

text \<open>
  The file system is a tree. A file is represented by what \<^verbatim>\<open>JSON.parse\<close> makes of
  its text: a syntax error, or an object; the documents considered are flat objects
  with string values, their properties in source order. Reading a directory as a file
  throws, like a parse error inside the \<^verbatim>\<open>try\<close>.
\<close>

datatype content = Malformed | Parsed "jsstring jsobject"

datatype entry = File content | Directory "(jsstring \<times> entry) list"

text \<open>
  \<^verbatim>\<open>path.extname\<close> (POSIX): the extension of the last segment of the path, from its
  last dot on; empty when the segment has no dot, when its only dot is its first
  character, and for the segment \<^verbatim>\<open>..\<close>.
\<close>

definition lastSegment :: "jsstring \<Rightarrow> jsstring" where
  "lastSegment p = rev (takeWhile (\<lambda>c. c \<noteq> 0x2F) (dropWhile (\<lambda>c. c = 0x2F) (rev p)))"

definition extname :: "jsstring \<Rightarrow> jsstring" where
  "extname p =
     (let name = lastSegment p;
          ext = 0x2E # rev (takeWhile (\<lambda>c. c \<noteq> 0x2E) (rev name))
      in if 0x2E \<notin> set name \<or> length ext = length name \<or> name = [0x2E, 0x2E] then [] else ext)"

text \<open>
  \<^verbatim>\<open>Object.assign(target, source)\<close>: each own property of the source is assigned in
  turn. The assignment of a string to \<^verbatim>\<open>__proto__\<close> goes to the setter of
  \<^verbatim>\<open>Object.prototype\<close> and is lost; every other name becomes an own property of the
  target. The place a property takes in a locale's object is never read (only the outer
  object is enumerated), so the order of the assignments matters for the values alone.
\<close>

definition assign :: "jsstring jsobject \<Rightarrow> jsstring jsobject \<Rightarrow> jsstring jsobject" where
  "assign target source =
     foldl (\<lambda>t kv. if fst kv = protoName then t else AList.update (fst kv) (snd kv) t)
       target source"

text \<open>
  The inner \<^verbatim>\<open>forEach\<close>: a file whose extension is \<^verbatim>\<open>.json\<close> is read and parsed inside
  \<^verbatim>\<open>try\<close>; on an exception the error is logged and the file contributes nothing.
\<close>

definition readLanguageFile :: "jsstring jsobject \<Rightarrow> jsstring \<times> entry \<Rightarrow> jsstring jsobject" where
  "readLanguageFile target file =
     (if extname (fst file) = lit ''.json''
      then (case snd file of
              File (Parsed translationData) \<Rightarrow> assign target translationData
            | File Malformed \<Rightarrow> target
            | Directory _ \<Rightarrow> target)
      else target)"

text \<open>
  The outer \<^verbatim>\<open>forEach\<close>: every entry of the locale root that is a directory is set to
  \<^verbatim>\<open>{}\<close> in the index and then filled from its files. For the name \<^verbatim>\<open>__proto__\<close> the
  assignment of \<^verbatim>\<open>{}\<close> replaces the prototype of the index and makes no locale; the
  files then fill that prototype, which \<^verbatim>\<open>state.translations['__proto__']\<close> reads.
\<close>

definition readLanguageFolder :: "TranslationIndex \<Rightarrow> jsstring \<times> entry \<Rightarrow> TranslationIndex" where
  "readLanguageFolder translations languageFolder =
     (case snd languageFolder of
        Directory files \<Rightarrow>
          if fst languageFolder = protoName
          then translations\<lparr>proto := Some (foldl readLanguageFile [] files)\<rparr>
          else translations\<lparr>own := AList.update (fst languageFolder)
                                       (foldl readLanguageFile [] files) (own translations)\<rparr>
      | File _ \<Rightarrow> translations)"

datatype jsError = TypeError | SyntaxError | ENOENT | ENOTDIR | EISDIR

text \<open>
  \<^verbatim>\<open>fs.readdirSync(state.localePath)\<close> throws when the path is missing or is not a
  directory; nothing in \<^verbatim>\<open>updateTranslationsForWorkspace\<close> catches that.
\<close>

definition readTranslations :: "entry option \<Rightarrow> jsError + TranslationIndex" where
  "readTranslations localeRoot =
     (case localeRoot of
        None \<Rightarrow> Inl ENOENT
      | Some (File _) \<Rightarrow> Inl ENOTDIR
      | Some (Directory languageFolders) \<Rightarrow>
          Inr (foldl readLanguageFolder emptyIndex languageFolders))"



section \<open>Workspace session manager\<close>

text \<open>
  The host and the extension form one world. Editors, documents and decoration types
  are host objects, known by a number; a workspace state is an object on a heap, so
  that the map \<^verbatim>\<open>workspaceStates\<close> and the closures of \<^verbatim>\<open>initializeWorkspace\<close> share it.
  \<open>rendered\<close> is what the host shows: the array last set for an editor and a decoration
  type. File watchers and event subscriptions are kept as the host keeps them; the
  source never closes a watcher and never disposes a subscription.
\<close>

record WorkspaceFolder =
  uri :: jsstring
  fsPath :: jsstring

record TextDocument =
  uriScheme :: jsstring
  uriFsPath :: jsstring
  getText :: jsstring

record TextEditor =
  document :: nat
  selection :: Range

record WorkspaceState =
  activeEditor :: "nat option"
  decorationType :: "nat option"
  inplaceAnnotationType :: "nat option"
  translations' :: TranslationIndex
  displayLanguage :: "jsstring option"
  localePath :: jsstring
  configJsonPath :: jsstring

datatype watcher = LocaleWatcher jsstring WorkspaceFolder | ConfigWatcher jsstring WorkspaceFolder

record World =
  hostText :: host
  filesAt :: "jsstring \<Rightarrow> entry option"
  documents :: "nat \<Rightarrow> TextDocument"
  editors :: "nat \<Rightarrow> TextEditor"
  visibleTextEditors :: "nat list"
  heap :: "nat \<Rightarrow> WorkspaceState"
  nextObject :: nat
  workspaceStates :: "(jsstring \<times> nat) list"
  rendered :: "((nat \<times> nat) \<times> DecorationOptions list) list"
  disposed :: "nat list"
  watchers :: "watcher list"
  subscriptions :: "(WorkspaceFolder \<times> nat) list"
  listening :: bool

text \<open>
  A call returns or throws; what it changed before throwing stays changed.
  \<open>catch\<close> is a \<^verbatim>\<open>try\<close> whose handler only logs.
\<close>

datatype result = Ok World | Thrown jsError World

definition worldOf :: "result \<Rightarrow> World" where
  "worldOf r = (case r of Ok w \<Rightarrow> w | Thrown e w \<Rightarrow> w)"

definition andThen :: "result \<Rightarrow> (World \<Rightarrow> result) \<Rightarrow> result" where
  "andThen r f = (case r of Ok w \<Rightarrow> f w | Thrown e w \<Rightarrow> Thrown e w)"

definition catch :: "result \<Rightarrow> result" where
  "catch r = Ok (worldOf r)"

definition forEach :: "'a list \<Rightarrow> ('a \<Rightarrow> World \<Rightarrow> result) \<Rightarrow> World \<Rightarrow> result" where
  "forEach xs f w = foldl (\<lambda>r x. andThen r (f x)) (Ok w) xs"

text \<open>
  \<^verbatim>\<open>path.join\<close> (POSIX) of two arguments: the non-empty arguments are put together
  with a separator and the result is normalised. Normalising drops empty segments and
  \<^verbatim>\<open>.\<close> segments; a \<^verbatim>\<open>..\<close> segment removes the segment before it, unless there is none
  or it is \<^verbatim>\<open>..\<close> too, in which case it is kept in a relative path and dropped in an
  absolute one. A trailing separator is kept.
\<close>

fun splitOn :: "16 word \<Rightarrow> jsstring \<Rightarrow> jsstring list" where
  "splitOn sep [] = [[]]"
| "splitOn sep (c # cs) =
     (if c = sep then [] # splitOn sep cs
      else (case splitOn sep cs of [] \<Rightarrow> [[c]] | seg # segs \<Rightarrow> (c # seg) # segs))"

definition normalizeSegment :: "bool \<Rightarrow> jsstring list \<Rightarrow> jsstring \<Rightarrow> jsstring list" where
  "normalizeSegment allowAboveRoot res seg =
     (if seg = [] \<or> seg = lit ''.'' then res
      else if seg = lit ''..''
      then (if res \<noteq> [] \<and> last res \<noteq> lit ''..'' then butlast res
            else if allowAboveRoot then res @ [lit ''..'']
            else res)
      else res @ [seg])"

definition normalize :: "jsstring \<Rightarrow> jsstring" where
  "normalize p =
     (if p = [] then lit ''.''
      else
        (let isAbsolute = (hd p = 0x2F);
             trailingSeparator = (last p = 0x2F);
             res = join (lit ''/'') (foldl (normalizeSegment (\<not> isAbsolute)) [] (splitOn 0x2F p))
         in if res = []
            then (if isAbsolute then lit ''/'' else if trailingSeparator then lit ''./'' else lit ''.'')
            else (if isAbsolute then lit ''/'' else []) @ res
                 @ (if trailingSeparator then lit ''/'' else [])))"

definition pathJoin :: "jsstring \<Rightarrow> jsstring \<Rightarrow> jsstring" where
  "pathJoin dir name =
     (let joined = (if dir = [] then name else if name = [] then dir else dir @ lit ''/'' @ name)
      in if joined = [] then lit ''.'' else normalize joined)"

text \<open>
  The host's decoration calls: \<^verbatim>\<open>setDecorations\<close> replaces the array shown for the
  editor and the type (a disposed type shows nothing any more); \<^verbatim>\<open>dispose\<close> removes
  the decorations of the type from every editor.
\<close>

definition setDecorations :: "nat \<Rightarrow> nat \<Rightarrow> DecorationOptions list \<Rightarrow> World \<Rightarrow> World" where
  "setDecorations editor type array w =
     (if type \<in> set (disposed w) then w
      else w\<lparr>rendered := AList.update (editor, type) array (rendered w)\<rparr>)"


definition isPluginActiveInWorkspace :: "WorkspaceFolder \<Rightarrow> World \<Rightarrow> bool" where
  "isPluginActiveInWorkspace workspaceFolder w \<longleftrightarrow>
     filesAt w (pathJoin (fsPath workspaceFolder) (lit ''.iris-i18n.json'')) \<noteq> None"

text \<open>
  \<^verbatim>\<open>workspaceStates.get(...)!\<close> is \<^verbatim>\<open>undefined\<close> for a folder without a state, and the
  first property access on it throws a \<^verbatim>\<open>TypeError\<close>.
\<close>

definition updateDecorationsForWorkspace :: "WorkspaceFolder \<Rightarrow> World \<Rightarrow> result" where
  "updateDecorationsForWorkspace workspaceFolder w =
     (case map_of (workspaceStates w) (uri workspaceFolder) of
        None \<Rightarrow> Thrown TypeError w
      | Some a \<Rightarrow>
          (let state = heap w a in
           case (activeEditor state, decorationType state, inplaceAnnotationType state) of
             (Some editor, Some dt, Some it) \<Rightarrow>
               (let arrays = computeDecorations (hostText w) (translations' state) (displayLanguage state)
                               (selection (editors w editor))
                               (getText (documents w (document (editors w editor))))
                in Ok (setDecorations editor it (snd arrays)
                        (setDecorations editor dt (fst arrays) w)))
           | _ \<Rightarrow> Ok w))"

definition updateTranslationsForWorkspace :: "WorkspaceFolder \<Rightarrow> World \<Rightarrow> result" where
  "updateTranslationsForWorkspace workspaceFolder w =
     (case map_of (workspaceStates w) (uri workspaceFolder) of
        None \<Rightarrow> Thrown TypeError w
      | Some a \<Rightarrow>
          (let state = heap w a in
           if localePath state = [] then Ok w
           else
             (case readTranslations (filesAt w (localePath state)) of
                Inl e \<Rightarrow> Thrown e (w\<lparr>heap := (heap w)(a := state\<lparr>translations' := emptyIndex\<rparr>)\<rparr>)
              | Inr built \<Rightarrow>
                  updateDecorationsForWorkspace workspaceFolder
                    (w\<lparr>heap := (heap w)(a := state\<lparr>translations' := built\<rparr>)\<rparr>))))"

text \<open>
  The descriptor is read inside \<^verbatim>\<open>try\<close>: a missing or malformed file, a missing
  \<^verbatim>\<open>locale_path\<close> (\<^verbatim>\<open>path.join\<close> throws on \<^verbatim>\<open>undefined\<close>), a missing state and an
  exception of \<^verbatim>\<open>updateTranslationsForWorkspace\<close> are all logged and swallowed.
\<close>

definition readConfigFileForWorkspace :: "WorkspaceFolder \<Rightarrow> World \<Rightarrow> result" where
  "readConfigFileForWorkspace workspaceFolder w =
     catch
       (case filesAt w (pathJoin (fsPath workspaceFolder) (lit ''.iris-i18n.json'')) of
          Some (File (Parsed config)) \<Rightarrow>
            (case (map_of (workspaceStates w) (uri workspaceFolder), map_of config (lit ''locale_path'')) of
               (Some a, Some locale_path) \<Rightarrow>
                 updateTranslationsForWorkspace workspaceFolder
                   (w\<lparr>heap := (heap w)(a := (heap w a)
                        \<lparr>localePath := pathJoin (fsPath workspaceFolder) locale_path,
                         displayLanguage := map_of config (lit ''display_language'')\<rparr>)\<rparr>)
             | _ \<Rightarrow> Thrown TypeError w)
        | Some (File Malformed) \<Rightarrow> Thrown SyntaxError w
        | Some (Directory _) \<Rightarrow> Thrown EISDIR w
        | None \<Rightarrow> Thrown ENOENT w)"

text \<open>\<^verbatim>\<open>fs.watch\<close> throws when the path does not exist. The watcher it returns is dropped.\<close>

definition watchConfigFileForWorkspace :: "WorkspaceFolder \<Rightarrow> World \<Rightarrow> result" where
  "watchConfigFileForWorkspace workspaceFolder w =
     (let configJsonPath = pathJoin (fsPath workspaceFolder) (lit ''.iris-i18n.json'')
      in if filesAt w configJsonPath = None then Thrown ENOENT w
         else Ok (w\<lparr>watchers := watchers w @ [ConfigWatcher configJsonPath workspaceFolder]\<rparr>))"

definition watchLocaleFilesForWorkspace :: "WorkspaceFolder \<Rightarrow> World \<Rightarrow> result" where
  "watchLocaleFilesForWorkspace workspaceFolder w =
     (case map_of (workspaceStates w) (uri workspaceFolder) of
        None \<Rightarrow> Thrown TypeError w
      | Some a \<Rightarrow>
          (let state = heap w a in
           if localePath state = [] then Ok w
           else if filesAt w (localePath state) = None then Thrown ENOENT w
           else Ok (w\<lparr>watchers := watchers w @ [LocaleWatcher (localePath state) workspaceFolder]\<rparr>)))"

definition createDecorationTypeForWorkspace :: "WorkspaceFolder \<Rightarrow> World \<Rightarrow> result" where
  "createDecorationTypeForWorkspace workspaceFolder w =
     (case map_of (workspaceStates w) (uri workspaceFolder) of
        None \<Rightarrow> Thrown TypeError w
      | Some a \<Rightarrow>
          Ok (w\<lparr>heap := (heap w)(a := (heap w a)
                  \<lparr>decorationType := Some (nextObject w),
                   inplaceAnnotationType := Some (nextObject w + 1)\<rparr>),
                nextObject := nextObject w + 2\<rparr>))"

text \<open>
  The test both editor loops apply (lines 208 to 212 and 222 to 226): the scheme is
  \<^verbatim>\<open>file\<close> and the path of the document starts with the path of the folder, as strings.
\<close>

definition editorInWorkspace :: "WorkspaceFolder \<Rightarrow> TextDocument \<Rightarrow> bool" where
  "editorInWorkspace workspaceFolder doc \<longleftrightarrow>
     uriScheme doc = lit ''file'' \<and> prefix (fsPath workspaceFolder) (uriFsPath doc)"

definition setActiveEditor :: "nat \<Rightarrow> nat \<Rightarrow> World \<Rightarrow> World" where
  "setActiveEditor a editor w = w\<lparr>heap := (heap w)(a := (heap w a)\<lparr>activeEditor := Some editor\<rparr>)\<rparr>"

text \<open>The three listeners a workspace registers; \<open>a\<close> is the state their closure holds.\<close>

definition activeTextEditorListener :: "WorkspaceFolder \<Rightarrow> nat \<Rightarrow> nat option \<Rightarrow> World \<Rightarrow> result" where
  "activeTextEditorListener workspaceFolder a editor w =
     (case editor of
        None \<Rightarrow> Ok w
      | Some e \<Rightarrow>
          if editorInWorkspace workspaceFolder (documents w (document (editors w e)))
          then updateDecorationsForWorkspace workspaceFolder (setActiveEditor a e w)
          else Ok w)"




definition initialState :: "WorkspaceFolder \<Rightarrow> WorkspaceState" where
  "initialState workspaceFolder =
     \<lparr>activeEditor = None, decorationType = None, inplaceAnnotationType = None,
      translations' = emptyIndex, displayLanguage = Some [], localePath = [],
      configJsonPath = pathJoin (fsPath workspaceFolder) (lit ''.iris-i18n.json'')\<rparr>"

definition initializeWorkspace :: "WorkspaceFolder \<Rightarrow> World \<Rightarrow> result" where
  "initializeWorkspace workspaceFolder w =
     (if isPluginActiveInWorkspace workspaceFolder w
      then
        (let a = nextObject w;
             w0 = w\<lparr>heap := (heap w)(a := initialState workspaceFolder),
                    nextObject := a + 1,
                    workspaceStates := AList.update (uri workspaceFolder) a (workspaceStates w)\<rparr>
         in andThen (readConfigFileForWorkspace workspaceFolder w0) (\<lambda>w1.
            andThen (createDecorationTypeForWorkspace workspaceFolder w1) (\<lambda>w2.
            andThen (updateDecorationsForWorkspace workspaceFolder w2) (\<lambda>w3.
            andThen (watchLocaleFilesForWorkspace workspaceFolder w3) (\<lambda>w4.
            andThen (watchConfigFileForWorkspace workspaceFolder w4) (\<lambda>w5.
            andThen (forEach (visibleTextEditors w5)
                       (\<lambda>editor. activeTextEditorListener workspaceFolder a (Some editor)) w5) (\<lambda>w6.
            Ok (w6\<lparr>subscriptions := subscriptions w6 @ [(workspaceFolder, a)]\<rparr>))))))))
      else Ok w)"



definition activate :: "WorkspaceFolder list \<Rightarrow> World \<Rightarrow> result" where
  "activate workspaceFolders w =
     andThen (forEach workspaceFolders initializeWorkspace w) (\<lambda>w1. Ok (w1\<lparr>listening := True\<rparr>))"





text \<open>
  The specification's notion of a document that lies under a directory: the directory
  itself, or a path that continues it after a separator.
\<close>

definition liesUnder :: "jsstring \<Rightarrow> jsstring \<Rightarrow> bool" where
  "liesUnder dir p \<longleftrightarrow> p = dir \<or> prefix (dir @ lit ''/'') p"


section \<open>Example data\<close>

text \<open>The index, document text and reference of the greeting example.\<close>

definition greetIndex :: TranslationIndex where
  "greetIndex =
     \<lparr>own = [(lit ''en'', [(lit ''greet'', lit ''Hi'')]), (lit ''fr'', [(lit ''greet'', lit ''Salut'')])],
      proto = None\<rparr>"

text \<open>An index in which the value of the key is the empty string.\<close>

definition blankIndex :: TranslationIndex where
  "blankIndex = \<lparr>own = [(lit ''en'', [(lit ''greet'', [])])], proto = None\<rparr>"

text \<open>
  A host whose strings and functions have no truthy member. The examples never read a
  member of a string or of a function, so they do not depend on it.
\<close>

definition bareHost :: host where
  "bareHost r k = None"

definition greetText :: jsstring where
  "greetText = lit ''x := ctx.Tr(\"greet\")''"

definition greetMatch :: RegExpExecArray where
  "greetMatch = \<lparr>index = 5, match0 = lit ''ctx.Tr(\"greet\")'', match1 = lit ''greet''\<rparr>"

definition helloText :: jsstring where
  "helloText = lit ''ctx.Tr(\"hello.world\")''"

text \<open>
  The specification's notion of a double quote that no backslash escapes: a backslash
  escapes the character after it.
\<close>

fun hasUnescapedQuote :: "jsstring \<Rightarrow> bool" where
  "hasUnescapedQuote [] = False"
| "hasUnescapedQuote (c # cs) =
     (if c = 0x5C then hasUnescapedQuote (drop 1 cs)
      else if c = 0x22 then True
      else hasUnescapedQuote cs)"

section \<open>Example world\<close>

definition appFolder :: WorkspaceFolder where
  "appFolder = \<lparr>uri = lit ''file:///w/app'', fsPath = lit ''/w/app''\<rparr>"

definition appFiles :: "jsstring \<Rightarrow> entry option" where
  "appFiles p =
     (if p = lit ''/w/app/.iris-i18n.json''
      then Some (File (Parsed [(lit ''locale_path'', lit ''locale''), (lit ''display_language'', lit ''fr'')]))
      else if p = lit ''/w/app/locale''
      then Some (Directory
             [(lit ''en'', Directory [(lit ''common.json'', File (Parsed [(lit ''greet'', lit ''Hi'')]))]),
              (lit ''fr'', Directory [(lit ''common.json'', File (Parsed [(lit ''greet'', lit ''Salut'')]))])])
      else None)"

text \<open>
  One visible editor, number 0, shows document 0, whose path, text and cursor are
  given. In \<open>siblingWorld\<close> the document is \<^verbatim>\<open>/w/app-old/main.go\<close>, a file of a sibling
  directory of the root, with the cursor at offset 0. In \<open>cursorWorld\<close> the document
  is \<^verbatim>\<open>/w/app/main.go\<close> with two references and the cursor inside the first key;
  \<open>removedWorld\<close> is that world after the root has been removed.
\<close>

definition worldWith :: "jsstring \<Rightarrow> jsstring \<Rightarrow> nat \<Rightarrow> World" where
  "worldWith p text cursor =
     \<lparr>hostText = bareHost,
      filesAt = appFiles,
      documents = (\<lambda>d. \<lparr>uriScheme = lit ''file'', uriFsPath = p, getText = text\<rparr>),
      editors = (\<lambda>e. \<lparr>document = 0, selection = \<lparr>rstart = cursor, rend = cursor\<rparr>\<rparr>),
      visibleTextEditors = [0],
      heap = (\<lambda>a. initialState appFolder),
      nextObject = 0,
      workspaceStates = [],
      rendered = [],
      disposed = [],
      watchers = [],
      subscriptions = [],
      listening = False\<rparr>"

definition siblingWorld :: World where
  "siblingWorld = worldOf (activate [appFolder] (worldWith (lit ''/w/app-old/main.go'') greetText 0))"








section \<open>Properties of the scanner\<close>

lemma length_callOpen: "length callOpen = 8"
  by (simp add: callOpen_def lit_def)

lemma length_callClose: "length callClose = 2"
  by (simp add: callClose_def lit_def)

lemma lazyGroup_Some:
  "lazyGroup s = Some key \<Longrightarrow>
     key \<noteq> [] \<and> (\<forall>c\<in>set key. \<not> isLineTerminator c) \<and> prefix (key @ callClose) s"
proof (induction s arbitrary: key)
  case Nil
  then show ?case by simp
next
  case (Cons c rest)
  show ?case
  proof (cases "prefix callClose rest")
    case True
    with Cons.prems show ?thesis by (auto split: if_splits)
  next
    case False
    with Cons.prems obtain k where k: "lazyGroup rest = Some k" "key = c # k" "\<not> isLineTerminator c"
      by (auto split: if_splits)
    from Cons.IH [OF k(1)] k(2,3) show ?thesis by auto
  qed
qed

lemma lazyGroup_shortest:
  "lazyGroup s = Some key \<Longrightarrow> 0 < n \<Longrightarrow> n < length key \<Longrightarrow> \<not> prefix callClose (drop n s)"
proof (induction s arbitrary: key n)
  case Nil
  then show ?case by simp
next
  case (Cons c rest)
  show ?case
  proof (cases "prefix callClose rest")
    case True
    with Cons.prems show ?thesis by (auto split: if_splits)
  next
    case False
    with Cons.prems obtain k where k: "lazyGroup rest = Some k" "key = c # k"
      by (auto split: if_splits)
    obtain n' where n': "n = Suc n'" using Cons.prems(2) by (cases n) auto
    show ?thesis
    proof (cases n')
      case 0
      with n' False show ?thesis by simp
    next
      case (Suc n'')
      with n' k Cons.prems(3) have "\<not> prefix callClose (drop n' rest)"
        by (intro Cons.IH [OF k(1)]) auto
      with n' show ?thesis by simp
    qed
  qed
qed

lemma matchAt_Some:
  assumes "matchAt s = Some key"
  shows "prefix (callOpen @ key @ callClose) s" and "lazyGroup (drop 8 s) = Some key"
proof -
  from assms have p: "prefix callOpen s" and l: "lazyGroup (drop 8 s) = Some key"
    by (auto simp: matchAt_def split: if_splits)
  from p obtain r where r: "s = callOpen @ r" by (auto simp: prefix_def)
  with l have "lazyGroup r = Some key" by (simp add: length_callOpen)
  then have "prefix (key @ callClose) r" by (simp add: lazyGroup_Some)
  with r show "prefix (callOpen @ key @ callClose) s" by simp
  show "lazyGroup (drop 8 s) = Some key" by (rule l)
qed

lemma matchAt_length:
  assumes "matchAt s = Some key"
  shows "length key + 10 \<le> length s"
  using prefix_length_le [OF matchAt_Some(1) [OF assms]]
  by (simp add: length_callOpen length_callClose)

lemma execAll_match:
  "m \<in> set (execAll i s) \<Longrightarrow>
     \<exists>j. index m = i + j \<and> matchAt (drop j s) = Some (match1 m)
        \<and> j + length (match0 m) \<le> length s
        \<and> match0 m = callOpen @ match1 m @ callClose"
proof (induction i s rule: execAll.induct)
  case (1 lastIndex)
  then show ?case by simp
next
  case (2 lastIndex c cs)
  show ?case
  proof (cases "matchAt (c # cs)")
    case None
    with "2.prems" have "m \<in> set (execAll (lastIndex + 1) cs)" by simp
    from "2.IH"(1) [OF None this] obtain j where
      "index m = lastIndex + 1 + j" "matchAt (drop j cs) = Some (match1 m)"
      "j + length (match0 m) \<le> length cs" "match0 m = callOpen @ match1 m @ callClose"
      by blast
    then show ?thesis by (intro exI [of _ "Suc j"]) simp
  next
    case (Some key)
    let ?n = "length key + 10"
    from "2.prems" Some consider
      (first) "m = \<lparr>index = lastIndex, match0 = callOpen @ key @ callClose, match1 = key\<rparr>"
      | (later) "m \<in> set (execAll (lastIndex + ?n) (drop ?n (c # cs)))"
      by auto
    then show ?thesis
    proof cases
      case first
      with Some matchAt_length [OF Some] show ?thesis
        by (intro exI [of _ 0]) (simp add: length_callOpen length_callClose)
    next
      case later
      from "2.IH"(2) [OF Some later] obtain j where j:
        "index m = lastIndex + ?n + j" "matchAt (drop j (drop ?n (c # cs))) = Some (match1 m)"
        "j + length (match0 m) \<le> length (drop ?n (c # cs))"
        "match0 m = callOpen @ match1 m @ callClose"
        by blast
      from j(3) matchAt_length [OF Some] have "?n + j + length (match0 m) \<le> length (c # cs)"
        by simp
      with j show ?thesis
        by (intro exI [of _ "?n + j"]) (simp add: add.commute)
    qed
  qed
qed

lemma execAll_covers:
  "matchAt (drop j s) = Some k \<Longrightarrow>
     \<exists>m \<in> set (execAll i s). index m \<le> i + j \<and> i + j < index m + length (match0 m)"
proof (induction i s arbitrary: j rule: execAll.induct)
  case (1 lastIndex)
  then show ?case by (simp add: matchAt_def callOpen_def lit_def)
next
  case (2 lastIndex c cs)
  show ?case
  proof (cases "matchAt (c # cs)")
    case None
    with "2.prems" obtain j' where j': "j = Suc j'" by (cases j) auto
    with "2.prems" have "matchAt (drop j' cs) = Some k" by simp
    from "2.IH"(1) [OF None this] j' None show ?thesis by auto
  next
    case (Some key)
    let ?n = "length key + 10"
    show ?thesis
    proof (cases "j < ?n")
      case True
      with Some show ?thesis by (auto simp: length_callOpen length_callClose)
    next
      case False
      then have "drop j (c # cs) = drop (j - ?n) (drop ?n (c # cs))" by simp
      with "2.prems" have "matchAt (drop (j - ?n) (drop ?n (c # cs))) = Some k" by simp
      from "2.IH"(2) [OF Some this] obtain m where
        "m \<in> set (execAll (lastIndex + ?n) (drop ?n (c # cs)))"
        "index m \<le> lastIndex + ?n + (j - ?n)" "lastIndex + ?n + (j - ?n) < index m + length (match0 m)"
        by blast
      with False Some show ?thesis by auto
    qed
  qed
qed

lemma scanned_key:
  assumes "m \<in> set (execAll 0 text)"
  shows "match1 m \<noteq> []"
    and "\<forall>c \<in> set (match1 m). \<not> isLineTerminator c"
    and "take (length (match1 m) + 10) (drop (index m) text) = callOpen @ match1 m @ callClose"
    and "\<forall>n. 0 < n \<and> n < length (match1 m) \<longrightarrow> \<not> prefix callClose (drop n (match1 m @ callClose))"
proof -
  from execAll_match [OF assms] obtain j where j:
    "index m = j" "matchAt (drop j text) = Some (match1 m)" by auto
  note p = matchAt_Some [OF j(2)]
  from p(1) obtain r where r: "drop j text = callOpen @ match1 m @ callClose @ r"
    by (auto simp: prefix_def)
  from p(2) r have lg: "lazyGroup (match1 m @ callClose @ r) = Some (match1 m)"
    by (simp add: length_callOpen)
  have "\<not> prefix callClose (drop n (match1 m @ callClose))" if n: "0 < n" "n < length (match1 m)" for n
  proof
    assume "prefix callClose (drop n (match1 m @ callClose))"
    then have "prefix callClose (drop n (match1 m @ callClose) @ r)"
      by (rule prefix_prefix)
    with n have "prefix callClose (drop n (match1 m @ callClose @ r))" by simp
    with lazyGroup_shortest [OF lg n] show False by simp
  qed
  then show "\<forall>n. 0 < n \<and> n < length (match1 m) \<longrightarrow> \<not> prefix callClose (drop n (match1 m @ callClose))"
    by blast
  show "take (length (match1 m) + 10) (drop (index m) text) = callOpen @ match1 m @ callClose"
    using r j(1) by (simp add: length_callOpen length_callClose)
  from lazyGroup_Some [OF lg] show "match1 m \<noteq> []" and "\<forall>c \<in> set (match1 m). \<not> isLineTerminator c"
    by blast+
qed

text \<open>
  C9. Scanning the exact text \<^verbatim>\<open>ctx.Tr("hello.world")\<close> gives exactly one reference; its
  key is \<^verbatim>\<open>hello.world\<close> and its range is the half-open offset range from 8 to 19, the
  eleven characters of the key without the call syntax and the quotes.
\<close>

theorem scan_hello_world:
  "execAll 0 helloText =
     [\<lparr>index = 0, match0 = lit ''ctx.Tr(\"hello.world\")'', match1 = lit ''hello.world''\<rparr>]
   \<and> map matchRange (execAll 0 helloText) = [\<lparr>rstart = 8, rend = 19\<rparr>]
   \<and> take (19 - 8) (drop 8 helloText) = lit ''hello.world''"
  by code_simp

text \<open>
  C8, as stated, fails: in \<^verbatim>\<open>ctx.Tr("a"b")\<close> the scanner reports the key \<^verbatim>\<open>a"b\<close>, which
  holds a double quote that nothing escapes.
\<close>

theorem quote_in_key_counterexample:
  "map match1 (execAll 0 (lit ''ctx.Tr(\"a\"b\")'')) = [lit ''a\"b'']
   \<and> hasUnescapedQuote (lit ''a\"b'')"
  by code_simp

text \<open>
  C8, amended. Every reference the scanner reports has a key that is not empty, holds
  no line terminator, stands in the text between \<^verbatim>\<open>ctx.Tr("\<close> and \<^verbatim>\<open>")\<close>, and is the
  shortest such run: \<^verbatim>\<open>")\<close> occurs nowhere in the key followed by \<^verbatim>\<open>")\<close> from its second
  character on, except at the very end. Conversely every offset at which the pattern
  matches lies inside a reported match.
\<close>

theorem scanner_keys:
  "(\<forall>m \<in> set (execAll 0 text).
      match1 m \<noteq> []
      \<and> (\<forall>c \<in> set (match1 m). \<not> isLineTerminator c)
      \<and> take (length (match1 m) + 10) (drop (index m) text) = callOpen @ match1 m @ callClose
      \<and> (\<forall>n. 0 < n \<and> n < length (match1 m)
             \<longrightarrow> \<not> prefix callClose (drop n (match1 m @ callClose))))
   \<and> (\<forall>j k. matchAt (drop j text) = Some k
         \<longrightarrow> (\<exists>m \<in> set (execAll 0 text). index m \<le> j \<and> j < index m + length (match0 m)))"
proof (intro conjI ballI allI impI)
  fix j k
  assume "matchAt (drop j text) = Some k"
  from execAll_covers [OF this, of 0]
  show "\<exists>m \<in> set (execAll 0 text). index m \<le> j \<and> j < index m + length (match0 m)"
    by simp
qed (use scanned_key in blast)+

theorem scanner_keys_witness:
  "greetMatch \<in> set (execAll 0 greetText)
   \<and> matchAt (drop 5 greetText) = Some (lit ''greet'')
   \<and> match1 greetMatch \<noteq> []
   \<and> take (length (match1 greetMatch) + 10) (drop (index greetMatch) greetText)
       = callOpen @ match1 greetMatch @ callClose"
proof -
  have m: "greetMatch \<in> set (execAll 0 greetText)" by code_simp
  have k: "matchAt (drop 5 greetText) = Some (lit ''greet'')" by code_simp
  from scanner_keys [of greetText] m
  have "match1 greetMatch \<noteq> []
      \<and> take (length (match1 greetMatch) + 10) (drop (index greetMatch) greetText)
          = callOpen @ match1 greetMatch @ callClose"
    by blast
  with m k show ?thesis by simp
qed

section \<open>Properties of the planner\<close>

lemma foldl_loopBody:
  "foldl (\<lambda>arrays match. loopBody host tr dl sel match arrays) (xs, ys) ms =
     (xs @ map (decoration host tr) (filter (\<lambda>m. intersection sel (matchRange m) \<noteq> None) ms),
      ys @ map (inplaceAnnotation host tr dl) (filter (\<lambda>m. intersection sel (matchRange m) = None) ms))"
  by (induction ms arbitrary: xs ys) (auto simp: loopBody_def split: option.splits)

lemma computeDecorations_eq:
  "computeDecorations host tr dl sel text =
     (map (decoration host tr) (filter (\<lambda>m. intersection sel (matchRange m) \<noteq> None) (execAll 0 text)),
      map (inplaceAnnotation host tr dl) (filter (\<lambda>m. intersection sel (matchRange m) = None) (execAll 0 text)))"
  by (simp add: computeDecorations_def foldl_loopBody)

lemma inplace_ranges:
  "d \<in> set (snd (computeDecorations host tr dl sel text)) \<Longrightarrow> intersection sel (range d) = None"
  by (auto simp: computeDecorations_eq inplaceAnnotation_def)

lemma inplace_produced:
  "m \<in> set (execAll 0 text) \<Longrightarrow> intersection sel (matchRange m) = None \<Longrightarrow>
     inplaceAnnotation host tr dl m \<in> set (snd (computeDecorations host tr dl sel text))"
  by (simp add: computeDecorations_eq)

lemma hover_produced:
  "m \<in> set (execAll 0 text) \<Longrightarrow> intersection sel (matchRange m) \<noteq> None \<Longrightarrow>
     decoration host tr m \<in> set (fst (computeDecorations host tr dl sel text))"
  by (simp add: computeDecorations_eq)

lemma set_forInKeys: "set (forInKeys obj) = fst ` set obj"
  by (auto simp: forInKeys_def)

lemma distinct_forInKeys: "distinct (map fst obj) \<Longrightarrow> distinct (forInKeys obj)"
  by (auto simp: forInKeys_def)

lemma forIn_own: "proto tr = None \<Longrightarrow> forIn tr = forInKeys (own tr)"
  by (simp add: forIn_def)

lemma own_in_forIn: "map_of (own tr) l = Some t \<Longrightarrow> l \<in> set (forIn tr)"
  by (auto simp: forIn_def set_forInKeys dest: map_of_SomeD intro: rev_image_eqI)

lemma fromObjectPrototype_ordinary: "ordinaryName k \<Longrightarrow> fromObjectPrototype p k = Undefined"
  by (simp add: fromObjectPrototype_def ordinaryName_def)

lemma translatedText_own:
  "map_of (own tr) l = Some t \<Longrightarrow> ordinaryName key \<Longrightarrow>
     translatedText host tr l key =
       (case map_of t key of None \<Rightarrow> key | Some v \<Rightarrow> if v = [] then key else v)"
  by (simp add: translatedText_def getIndex_def getObj_def orKey_def fromObjectPrototype_ordinary
      split: option.splits)

lemma translatedText_blank:
  "map_of (own tr) l = Some t \<Longrightarrow> map_of t key = Some [] \<Longrightarrow> translatedText host tr l key = key"
  by (simp add: translatedText_def getIndex_def getObj_def orKey_def)

lemma translatedText_absent:
  "map_of (own tr) l = None \<Longrightarrow> proto tr = None \<Longrightarrow> ordinaryName l \<Longrightarrow>
     translatedText host tr l key = key"
  by (simp add: translatedText_def getIndex_def fromObjectPrototype_ordinary)

lemma join_blocks:
  "lines \<noteq> [] \<Longrightarrow>
     a @ join (b @ a) lines @ b = concat (map (\<lambda>x. a @ x @ b) lines)"
  by (induction "b @ a" lines rule: join.induct) simp_all

lemma markdown_blocks:
  assumes "lines \<noteq> []"
  shows "markdown lines =
           lit ''#### iris i18n \<newline>''
           @ concat (map (\<lambda>x. lit ''<div style=\"line-height:20px;\">'' @ x @ lit ''</div>'') lines)"
proof -
  have "markdown lines =
      lit ''#### iris i18n \<newline>''
      @ (lit ''<div style=\"line-height:20px;\">''
         @ join (lit ''</div>'' @ lit ''<div style=\"line-height:20px;\">'') lines @ lit ''</div>'')"
    by (simp add: markdown_def lit_def)
  with join_blocks [OF assms] show ?thesis by simp
qed

lemma markdown_empty:
  "markdown [] = lit ''#### iris i18n \<newline>'' @ lit ''<div style=\"line-height:20px;\"></div>''"
  by (simp add: markdown_def lit_def)

text \<open>
  C1, as stated, fails: with the cursor inside the key (the selection from 14 to 14
  meets the range from 13 to 18) and the display language set, no inline payload is
  produced; with the selection away from the key, no hover payload is produced.
\<close>

theorem hovered_gets_inline_counterexample:
  "greetMatch \<in> set (execAll 0 greetText)
   \<and> intersection \<lparr>rstart = 14, rend = 14\<rparr> (matchRange greetMatch) \<noteq> None
   \<and> snd (computeDecorations bareHost greetIndex (Some (lit ''fr'')) \<lparr>rstart = 14, rend = 14\<rparr> greetText) = []
   \<and> intersection \<lparr>rstart = 0, rend = 0\<rparr> (matchRange greetMatch) = None
   \<and> fst (computeDecorations bareHost greetIndex (Some (lit ''fr'')) \<lparr>rstart = 0, rend = 0\<rparr> greetText) = []"
  by code_simp

text \<open>
  C1, amended. Let the display language be set, let the prototype of the index be
  \<^verbatim>\<open>Object.prototype\<close>, and let neither the key nor the display language name a
  property of \<^verbatim>\<open>Object.prototype\<close>. Then every reference whose range the selection does
  not intersect gets an inline payload whose text is the value of the key in the
  locale of the display language, or the raw key when the locale or the key is absent
  or the value is empty; and every reference whose range the selection does intersect
  gets a hover payload whose text is the heading followed by one block for each locale
  of the index, each block holding the locale, a colon and the text resolved in that
  locale (one empty block when the index has no locale).
\<close>

theorem plan_by_selection:
  assumes "m \<in> set (execAll 0 text)" and "language = Some l"
    and "distinct (map fst (own tr))" and "proto tr = None"
    and "ordinaryName (match1 m)" and "ordinaryName l"
  shows "if intersection sel (matchRange m) = None
         then (\<exists>d \<in> set (snd (computeDecorations host tr language sel text)).
                 range d = matchRange m
                 \<and> contentText d =
                     Some (case map_of (own tr) l of
                             None \<Rightarrow> match1 m
                           | Some t \<Rightarrow> (case map_of t (match1 m) of
                                          None \<Rightarrow> match1 m
                                        | Some v \<Rightarrow> if v = [] then match1 m else v)))
         else (\<exists>d \<in> set (fst (computeDecorations host tr language sel text)). \<exists>ls.
                 range d = matchRange m
                 \<and> distinct ls \<and> set ls = fst ` set (own tr)
                 \<and> hoverMessage d =
                     Some (lit ''#### iris i18n \<newline>''
                           @ (if ls = [] then lit ''<div style=\"line-height:20px;\"></div>''
                              else concat (map (\<lambda>l'.
                                     lit ''<div style=\"line-height:20px;\">'' @ l' @ lit '': ''
                                     @ (case map_of (own tr) l' of
                                          None \<Rightarrow> match1 m
                                        | Some t \<Rightarrow> (case map_of t (match1 m) of
                                                       None \<Rightarrow> match1 m
                                                     | Some v \<Rightarrow> if v = [] then match1 m else v))
                                     @ lit ''</div>'') ls))))"
proof (cases "intersection sel (matchRange m) = None")
  case True
  have "translatedText host tr l (match1 m) =
      (case map_of (own tr) l of
         None \<Rightarrow> match1 m
       | Some t \<Rightarrow> (case map_of t (match1 m) of
                      None \<Rightarrow> match1 m
                    | Some v \<Rightarrow> if v = [] then match1 m else v))"
    using assms(4,5,6)
    by (cases "map_of (own tr) l") (simp_all add: translatedText_absent translatedText_own)
  then have "contentText (inplaceAnnotation host tr language m) =
      Some (case map_of (own tr) l of
              None \<Rightarrow> match1 m
            | Some t \<Rightarrow> (case map_of t (match1 m) of
                           None \<Rightarrow> match1 m
                         | Some v \<Rightarrow> if v = [] then match1 m else v))"
    and "range (inplaceAnnotation host tr language m) = matchRange m"
    by (simp_all add: inplaceAnnotation_def toPropertyKey_def assms(2))
  with inplace_produced [OF assms(1) True] True show ?thesis by auto
next
  case False
  let ?ls = "forIn tr"
  let ?T = "\<lambda>l'. case map_of (own tr) l' of
                    None \<Rightarrow> match1 m
                  | Some t \<Rightarrow> (case map_of t (match1 m) of
                                 None \<Rightarrow> match1 m
                               | Some v \<Rightarrow> if v = [] then match1 m else v)"
  have ls: "distinct ?ls" "set ?ls = fst ` set (own tr)"
    using assms(3,4) by (simp_all add: forIn_own distinct_forInKeys set_forInKeys)
  have "translatedText host tr l' (match1 m) = ?T l'" if "l' \<in> set ?ls" for l'
  proof -
    from that ls(2) obtain t where "map_of (own tr) l' = Some t"
      by (metis (no_types, lifting) domD dom_map_of_conv_image_fst)
    with assms(5) show ?thesis by (simp add: translatedText_own)
  qed
  then have lines: "hoverLines host tr (match1 m) = map (\<lambda>l'. l' @ lit '': '' @ ?T l') ?ls"
    by (simp add: hoverLines_def)
  have "markdown (hoverLines host tr (match1 m)) =
      lit ''#### iris i18n \<newline>''
      @ (if ?ls = [] then lit ''<div style=\"line-height:20px;\"></div>''
         else concat (map (\<lambda>l'. lit ''<div style=\"line-height:20px;\">'' @ l' @ lit '': ''
                @ ?T l' @ lit ''</div>'') ?ls))"
  proof (cases "?ls = []")
    case True
    then show ?thesis by (simp add: lines markdown_empty)
  next
    case False
    then have "map (\<lambda>l'. l' @ lit '': '' @ ?T l') ?ls \<noteq> []" by simp
    from markdown_blocks [OF this] False show ?thesis
      by (simp add: lines comp_def)
  qed
  then have "hoverMessage (decoration host tr m) =
      Some (lit ''#### iris i18n \<newline>''
            @ (if ?ls = [] then lit ''<div style=\"line-height:20px;\"></div>''
               else concat (map (\<lambda>l'. lit ''<div style=\"line-height:20px;\">'' @ l' @ lit '': ''
                      @ ?T l' @ lit ''</div>'') ?ls)))"
    and "range (decoration host tr m) = matchRange m"
    by (simp_all add: decoration_def)
  with hover_produced [OF assms(1) False] ls False show ?thesis
    by (auto intro!: bexI [of _ "decoration host tr m"] exI [of _ ?ls])
qed

theorem plan_by_selection_witness:
  "greetMatch \<in> set (execAll 0 greetText) \<and> distinct (map fst (own greetIndex))
   \<and> proto greetIndex = None \<and> ordinaryName (match1 greetMatch) \<and> ordinaryName (lit ''fr'')
   \<and> snd (computeDecorations bareHost greetIndex (Some (lit ''fr'')) \<lparr>rstart = 0, rend = 0\<rparr> greetText)
       = [\<lparr>range = \<lparr>rstart = 13, rend = 18\<rparr>, contentText = Some (lit ''Salut''), hoverMessage = None\<rparr>]
   \<and> fst (computeDecorations bareHost greetIndex (Some (lit ''fr'')) \<lparr>rstart = 18, rend = 30\<rparr> greetText)
       = [\<lparr>range = \<lparr>rstart = 13, rend = 18\<rparr>, contentText = None,
           hoverMessage = Some (lit ''#### iris i18n \<newline><div style=\"line-height:20px;\">en: Hi</div><div style=\"line-height:20px;\">fr: Salut</div>'')\<rparr>]"
proof -
  have m: "greetMatch \<in> set (execAll 0 greetText)" by code_simp
  have d: "distinct (map fst (own greetIndex))" by code_simp
  have p: "proto greetIndex = None" by code_simp
  have k: "ordinaryName (match1 greetMatch)" by code_simp
  have l: "ordinaryName (lit ''fr'')" by code_simp
  have ev: ?thesis by code_simp
  show ?thesis
    using plan_by_selection [OF m refl d p k l, where sel = "\<lparr>rstart = 0, rend = 0\<rparr>" and host = bareHost]
      plan_by_selection [OF m refl d p k l, where sel = "\<lparr>rstart = 18, rend = 30\<rparr>" and host = bareHost]
    by - (rule ev)
qed

text \<open>
  C2. With the index \<^verbatim>\<open>{en: {greet: "Hi"}, fr: {greet: "Salut"}}\<close> and the display
  language \<^verbatim>\<open>fr\<close>, a reference to \<^verbatim>\<open>greet\<close> whose range the selection does not intersect
  gets an inline payload whose text is \<^verbatim>\<open>Salut\<close>; one whose range the selection does
  intersect gets a hover payload whose text holds the lines \<^verbatim>\<open>en: Hi\<close> and \<^verbatim>\<open>fr: Salut\<close>,
  each in its block after the heading, and no inline payload.
\<close>

theorem greet_example:
  assumes "m \<in> set (execAll 0 text)" and "match1 m = lit ''greet''"
  shows "if intersection sel (matchRange m) = None
         then (\<exists>d \<in> set (snd (computeDecorations host greetIndex (Some (lit ''fr'')) sel text)).
                 range d = matchRange m \<and> contentText d = Some (lit ''Salut''))
         else (\<exists>d \<in> set (fst (computeDecorations host greetIndex (Some (lit ''fr'')) sel text)).
                 range d = matchRange m
                 \<and> hoverMessage d =
                     Some (lit ''#### iris i18n \<newline><div style=\"line-height:20px;\">en: Hi</div><div style=\"line-height:20px;\">fr: Salut</div>''))
              \<and> (\<forall>d \<in> set (snd (computeDecorations host greetIndex (Some (lit ''fr'')) sel text)).
                    range d \<noteq> matchRange m)"
proof -
  have salut: "translatedText host greetIndex (lit ''fr'') (lit ''greet'') = lit ''Salut''"
    by code_simp
  have lines: "hoverLines host greetIndex (lit ''greet'') = [lit ''en: Hi'', lit ''fr: Salut'']"
    by code_simp
  have md: "markdown [lit ''en: Hi'', lit ''fr: Salut''] =
      lit ''#### iris i18n \<newline><div style=\"line-height:20px;\">en: Hi</div><div style=\"line-height:20px;\">fr: Salut</div>''"
    by code_simp
  show ?thesis
  proof (cases "intersection sel (matchRange m) = None")
    case True
    have "range (inplaceAnnotation host greetIndex (Some (lit ''fr'')) m) = matchRange m"
      and "contentText (inplaceAnnotation host greetIndex (Some (lit ''fr'')) m) = Some (lit ''Salut'')"
      using assms(2) salut by (simp_all add: inplaceAnnotation_def toPropertyKey_def)
    with inplace_produced [OF assms(1) True] True show ?thesis by auto
  next
    case False
    have "range (decoration host greetIndex m) = matchRange m"
      and "hoverMessage (decoration host greetIndex m) =
        Some (lit ''#### iris i18n \<newline><div style=\"line-height:20px;\">en: Hi</div><div style=\"line-height:20px;\">fr: Salut</div>'')"
      using assms(2) lines md by (simp_all add: decoration_def)
    moreover have "\<forall>d \<in> set (snd (computeDecorations host greetIndex (Some (lit ''fr'')) sel text)).
        range d \<noteq> matchRange m"
      using False inplace_ranges by metis
    ultimately show ?thesis using hover_produced [OF assms(1) False] False by auto
  qed
qed

theorem greet_example_witness:
  "greetMatch \<in> set (execAll 0 greetText) \<and> match1 greetMatch = lit ''greet''
   \<and> snd (computeDecorations bareHost greetIndex (Some (lit ''fr'')) \<lparr>rstart = 0, rend = 0\<rparr> greetText)
       = [\<lparr>range = \<lparr>rstart = 13, rend = 18\<rparr>, contentText = Some (lit ''Salut''), hoverMessage = None\<rparr>]
   \<and> fst (computeDecorations bareHost greetIndex (Some (lit ''fr'')) \<lparr>rstart = 14, rend = 14\<rparr> greetText)
       = [\<lparr>range = \<lparr>rstart = 13, rend = 18\<rparr>, contentText = None,
           hoverMessage = Some (lit ''#### iris i18n \<newline><div style=\"line-height:20px;\">en: Hi</div><div style=\"line-height:20px;\">fr: Salut</div>'')\<rparr>]
   \<and> snd (computeDecorations bareHost greetIndex (Some (lit ''fr'')) \<lparr>rstart = 14, rend = 14\<rparr> greetText) = []"
proof -
  have m: "greetMatch \<in> set (execAll 0 greetText)" by code_simp
  have k: "match1 greetMatch = lit ''greet''" by code_simp
  have ev: ?thesis by code_simp
  show ?thesis
    using greet_example [OF m k, where sel = "\<lparr>rstart = 0, rend = 0\<rparr>" and host = bareHost]
      greet_example [OF m k, where sel = "\<lparr>rstart = 14, rend = 14\<rparr>" and host = bareHost]
    by - (rule ev)
qed

text \<open>
  C7, as stated, fails: with no display language (\<^verbatim>\<open>display_language\<close> absent from the
  descriptor) and the selection away from the key, an inline payload is produced all
  the same; its text is the raw key.
\<close>

theorem unset_language_counterexample:
  "snd (computeDecorations bareHost greetIndex None \<lparr>rstart = 0, rend = 0\<rparr> greetText) =
     [\<lparr>range = \<lparr>rstart = 13, rend = 18\<rparr>, contentText = Some (lit ''greet''), hoverMessage = None\<rparr>]"
  by code_simp

text \<open>
  C7, amended. When the display language is absent, an inline payload is still
  produced for every reference whose range the selection does not intersect; its
  text is the raw key (the index having no property named \<^verbatim>\<open>undefined\<close>, neither a
  locale nor a property of a replaced prototype). The hover payloads do not depend on
  the display language.
\<close>

theorem unset_language_still_inline:
  assumes "m \<in> set (execAll 0 text)" and "intersection sel (matchRange m) = None"
    and "map_of (own tr) (lit ''undefined'') = None"
    and "\<forall>p. proto tr = Some p \<longrightarrow> map_of p (lit ''undefined'') = None"
  shows "\<lparr>range = matchRange m, contentText = Some (match1 m), hoverMessage = None\<rparr>
           \<in> set (snd (computeDecorations host tr None sel text))
         \<and> fst (computeDecorations host tr None sel text) = fst (computeDecorations host tr language sel text)"
proof -
  have u: "ordinaryName (lit ''undefined'')" by code_simp
  have "getIndex tr (lit ''undefined'') = Undefined"
    using assms(3,4) by (simp add: getIndex_def fromObjectPrototype_ordinary [OF u] split: option.splits)
  then have "inplaceAnnotation host tr None m =
      \<lparr>range = matchRange m, contentText = Some (match1 m), hoverMessage = None\<rparr>"
    by (simp add: inplaceAnnotation_def toPropertyKey_def translatedText_def)
  with inplace_produced [OF assms(1,2), of host tr None] show ?thesis
    by (simp add: computeDecorations_eq)
qed

theorem unset_language_still_inline_witness:
  "greetMatch \<in> set (execAll 0 greetText)
   \<and> intersection \<lparr>rstart = 0, rend = 0\<rparr> (matchRange greetMatch) = None
   \<and> map_of (own greetIndex) (lit ''undefined'') = None
   \<and> proto greetIndex = None
   \<and> \<lparr>range = \<lparr>rstart = 13, rend = 18\<rparr>, contentText = Some (lit ''greet''), hoverMessage = None\<rparr>
       \<in> set (snd (computeDecorations bareHost greetIndex None \<lparr>rstart = 0, rend = 0\<rparr> greetText))"
proof -
  have m: "greetMatch \<in> set (execAll 0 greetText)" by code_simp
  have i: "intersection \<lparr>rstart = 0, rend = 0\<rparr> (matchRange greetMatch) = None" by code_simp
  have u: "map_of (own greetIndex) (lit ''undefined'') = None" by code_simp
  have p: "\<forall>p. proto greetIndex = Some p \<longrightarrow> map_of p (lit ''undefined'') = None"
    by (simp add: greetIndex_def)
  have ev: ?thesis by code_simp
  show ?thesis
    using unset_language_still_inline [OF m i u p, where host = bareHost and language = "Some (lit ''fr'')"]
    by - (rule ev)
qed

text \<open>
  C10. If the index maps a locale to a key whose value is the empty string, then a
  reference to that key shows the raw key: in the inline payload, when that locale is
  the display language, and in the hover payload, whose text holds the block of that
  locale with the locale, a colon and the raw key. The fallback takes empty values as
  well as absent keys.
\<close>

theorem empty_value_falls_back:
  assumes "m \<in> set (execAll 0 text)"
    and "map_of (own tr) l = Some t" and "map_of t (match1 m) = Some []"
  shows "if intersection sel (matchRange m) = None
         then (\<exists>d \<in> set (snd (computeDecorations host tr (Some l) sel text)).
                 range d = matchRange m \<and> contentText d = Some (match1 m))
         else (\<exists>d \<in> set (fst (computeDecorations host tr language sel text)). \<exists>before after.
                 range d = matchRange m
                 \<and> hoverMessage d =
                     Some (lit ''#### iris i18n \<newline>'' @ before
                           @ lit ''<div style=\"line-height:20px;\">'' @ l @ lit '': '' @ match1 m
                           @ lit ''</div>'' @ after))"
proof (cases "intersection sel (matchRange m) = None")
  case True
  have "range (inplaceAnnotation host tr (Some l) m) = matchRange m"
    and "contentText (inplaceAnnotation host tr (Some l) m) = Some (match1 m)"
    using translatedText_blank [OF assms(2,3)]
    by (simp_all add: inplaceAnnotation_def toPropertyKey_def)
  with inplace_produced [OF assms(1) True] True show ?thesis by auto
next
  case False
  let ?block = "\<lambda>x. lit ''<div style=\"line-height:20px;\">'' @ x @ lit ''</div>''"
  let ?line = "\<lambda>l'. l' @ lit '': '' @ translatedText host tr l' (match1 m)"
  from own_in_forIn [OF assms(2)] obtain xs ys where split: "forIn tr = xs @ l # ys"
    by (auto simp: in_set_conv_decomp)
  have line: "?line l = l @ lit '': '' @ match1 m"
    by (simp add: translatedText_blank [OF assms(2,3)])
  have "hoverLines host tr (match1 m) \<noteq> []"
    by (simp add: hoverLines_def split)
  from markdown_blocks [OF this]
  have "markdown (hoverLines host tr (match1 m)) =
      lit ''#### iris i18n \<newline>'' @ concat (map ?block (map ?line xs))
      @ lit ''<div style=\"line-height:20px;\">'' @ l @ lit '': '' @ match1 m @ lit ''</div>''
      @ concat (map ?block (map ?line ys))"
    by (simp add: hoverLines_def split line)
  then have "hoverMessage (decoration host tr m) =
      Some (lit ''#### iris i18n \<newline>'' @ concat (map ?block (map ?line xs))
            @ lit ''<div style=\"line-height:20px;\">'' @ l @ lit '': '' @ match1 m @ lit ''</div>''
            @ concat (map ?block (map ?line ys)))"
    and "range (decoration host tr m) = matchRange m"
    by (simp_all add: decoration_def)
  with hover_produced [OF assms(1) False] False show ?thesis
    by (auto intro!: bexI [of _ "decoration host tr m"])
qed

theorem empty_value_falls_back_witness:
  "greetMatch \<in> set (execAll 0 greetText)
   \<and> map_of (own blankIndex) (lit ''en'') = Some [(lit ''greet'', [])]
   \<and> map_of [(lit ''greet'', [])] (match1 greetMatch) = Some ([] :: jsstring)
   \<and> snd (computeDecorations bareHost blankIndex (Some (lit ''en'')) \<lparr>rstart = 0, rend = 0\<rparr> greetText)
       = [\<lparr>range = \<lparr>rstart = 13, rend = 18\<rparr>, contentText = Some (lit ''greet''), hoverMessage = None\<rparr>]
   \<and> fst (computeDecorations bareHost blankIndex (Some (lit ''en'')) \<lparr>rstart = 14, rend = 14\<rparr> greetText)
       = [\<lparr>range = \<lparr>rstart = 13, rend = 18\<rparr>, contentText = None,
           hoverMessage = Some (lit ''#### iris i18n \<newline><div style=\"line-height:20px;\">en: greet</div>'')\<rparr>]"
proof -
  have m: "greetMatch \<in> set (execAll 0 greetText)" by code_simp
  have a: "map_of (own blankIndex) (lit ''en'') = Some [(lit ''greet'', [])]" by code_simp
  have b: "map_of [(lit ''greet'', [])] (match1 greetMatch) = Some ([] :: jsstring)" by code_simp
  have ev: ?thesis by code_simp
  show ?thesis
    using empty_value_falls_back [OF m a b, where sel = "\<lparr>rstart = 0, rend = 0\<rparr>" and host = bareHost
        and language = "Some (lit ''en'')"]
      empty_value_falls_back [OF m a b, where sel = "\<lparr>rstart = 14, rend = 14\<rparr>" and host = bareHost
        and language = "Some (lit ''en'')"]
    by - (rule ev)
qed

section \<open>Properties of the index builder\<close>



















section \<open>Properties of the session manager\<close>


text \<open>
  C6 against the code: the session of the root \<^verbatim>\<open>/w/app\<close> takes the visible editor of
  \<^verbatim>\<open>/w/app-old/main.go\<close>, a document that does not lie under the root, as its active
  editor, scans it and sets an annotation on it: the test compares the paths as
  strings.
\<close>

theorem sibling_directory_annotated:
  "\<not> liesUnder (fsPath appFolder) (uriFsPath (documents siblingWorld 0))
   \<and> uriFsPath (documents siblingWorld 0) = lit ''/w/app-old/main.go''
   \<and> editorInWorkspace appFolder (documents siblingWorld 0)
   \<and> map fst (workspaceStates siblingWorld) = [uri appFolder]
   \<and> activeEditor (heap siblingWorld 0) = Some 0
   \<and> map_of (rendered siblingWorld) (0, 2)
       = Some [\<lparr>range = \<lparr>rstart = 13, rend = 18\<rparr>, contentText = Some (lit ''Salut''), hoverMessage = None\<rparr>]"
  by code_simp

end
